theory Spec2Isabelle
  imports Complex_Main "HOL-Library.Sublist" "HOL-Library.Char_ord"
    "HOL-Library.List_Lexorder" "HOL-Library.Product_Lexorder" "HOL-Library.Log_Nat"
    "HOL-Library.Code_Target_Numeral"
begin

section \<open>Values\<close>

text \<open>
  The pipeline of \<^verbatim>\<open>src/database.py\<close> computes on pandas float columns, which hold IEEE 754
  binary64 numbers. A value is \<open>NaN\<close> (what \<^verbatim>\<open>pd.notna\<close> tests), one of the two infinities,
  or a finite number, kept as the real it denotes. Every arithmetic operation of the code
  rounds its exact result to the nearest binary64 number, ties to even, and overflows to an
  infinity; \<open>round64\<close> is that rounding. The sign of a zero is not kept (prices and volumes
  are not negative). A calendar date is its day number; the stored columns \<^verbatim>\<open>price_usd\<close>,
  \<^verbatim>\<open>market_cap\<close> and \<^verbatim>\<open>total_volume\<close> hold finite numbers.
\<close>

type_synonym date = int

datatype fval = NaN | PInf | NInf | Fin real

definition finf :: "real \<Rightarrow> fval" where
  \<comment> \<open>the infinity with the sign of \<open>s\<close>; NaN when there is no sign (0/0, inf * 0)\<close>
  "finf s = (if 0 < s then PInf else if s < 0 then NInf else NaN)"

definition pow2 :: "int \<Rightarrow> real" where
  "pow2 e = (if 0 \<le> e then 2 ^ nat e else 1 / 2 ^ nat (- e))"

definition expo :: "real \<Rightarrow> int" where
  \<comment> \<open>for \<open>0 < v\<close>, the exponent \<open>e\<close> with \<open>2^e \<le> v < 2^(e+1)\<close>\<close>
  "expo v = (if 1 \<le> v then int (floorlog 2 (nat \<lfloor>v\<rfloor>)) - 1
             else - int (floorlog 2 (nat (\<lceil>1 / v\<rceil> - 1))))"

definition round_half_even :: "real \<Rightarrow> int" where
  "round_half_even q =
     (let f = \<lfloor>q\<rfloor>; d = q - of_int f
      in if d < 1 / 2 then f else if 1 / 2 < d then f + 1 else if even f then f else f + 1)"

definition round64 :: "real \<Rightarrow> fval" where
  \<comment> \<open>round to nearest, ties to even, with a 53-bit significand: the unit in the last place
      is \<open>2^(e-52)\<close>, with \<open>e = -1022\<close> for the subnormal numbers; from \<open>2^1024 - 2^970\<close> on the
      result is an infinity\<close>
  "round64 x =
     (if 2 ^ 1024 - 2 ^ 970 \<le> \<bar>x\<bar> then finf x
      else let e = (if \<bar>x\<bar> < 1 / 2 ^ 1022 then - 1022 else expo \<bar>x\<bar>); u = pow2 (e - 52)
           in Fin (sgn x * of_int (round_half_even (\<bar>x\<bar> / u)) * u))"

definition fdiv :: "real \<Rightarrow> real \<Rightarrow> fval" where
  \<comment> \<open>\<open>x / y\<close> on two finite column values\<close>
  "fdiv x y = (if y = 0 then finf x else round64 (x / y))"

fun fsub :: "fval \<Rightarrow> real \<Rightarrow> fval" where
  "fsub (Fin a) c = round64 (a - c)"
| "fsub v c = v"

fun fmul :: "fval \<Rightarrow> real \<Rightarrow> fval" where
  "fmul (Fin a) c = round64 (a * c)"
| "fmul PInf c = finf c"
| "fmul NInf c = finf (- c)"
| "fmul NaN c = NaN"

definition notna :: "fval \<Rightarrow> bool" where
  "notna v = (v \<noteq> NaN)"

definition pct_change :: "real list \<Rightarrow> fval list" where
  \<comment> \<open>\<^verbatim>\<open>Series.pct_change()\<close>: \<^verbatim>\<open>data / data.shift(1) - 1\<close>; the first row has no predecessor\<close>
  "pct_change xs =
     map (\<lambda>i. if i = 0 then NaN else fsub (fdiv (xs ! i) (xs ! (i - 1))) 1) [0..<length xs]"

definition finite_vals :: "fval list \<Rightarrow> real list" where
  \<comment> \<open>the valid observations of a window: the rolling routines treat an infinity as NaN\<close>
  "finite_vals vs = concat (map (\<lambda>v. case v of Fin a \<Rightarrow> [a] | _ \<Rightarrow> []) vs)"

definition mean :: "real list \<Rightarrow> real" where
  "mean xs = sum_list xs / real (length xs)"

definition sample_std :: "real list \<Rightarrow> real" where
  \<comment> \<open>standard deviation with one delta degree of freedom (\<^verbatim>\<open>ddof=1\<close>)\<close>
  "sample_std xs = sqrt (sum_list (map (\<lambda>x. (x - mean xs)\<^sup>2) xs) / (real (length xs) - 1))"

definition rolling_std :: "nat \<Rightarrow> fval list \<Rightarrow> fval list" where
  \<comment> \<open>\<^verbatim>\<open>Series.rolling(window=w).std()\<close>: the window of row \<open>i\<close> is rows \<open>i-w+1..i\<close>, and
      \<^verbatim>\<open>min_periods\<close> defaults to \<open>w\<close>. The deviation of a full window is the exact one: the
      routine's own binary64 arithmetic is not in the sources.\<close>
  "rolling_std w vs =
     map (\<lambda>i. let obs = finite_vals (drop (i + 1 - w) (take (i + 1) vs))
              in if length obs < w \<or> length obs \<le> 1 then NaN else Fin (sample_std obs))
       [0..<length vs]"

section \<open>Store\<close>

text \<open>
  A \<^verbatim>\<open>symbol\<close> cell is \<open>None\<close> when pandas does not read it as a string (an empty cell, a
  number).
\<close>

record crypto_row =
  c_crypto_id :: string
  symbol :: "string option"
  name :: string

record price_row =
  crypto_id :: string
  date :: date
  price_usd :: real
  market_cap :: real
  total_volume :: real

record 'v metric_row =
  m_crypto_id :: string
  m_date :: date
  daily_return :: 'v
  volatility_7d :: 'v
  volatility_30d :: 'v
  volume_change_24h :: 'v

record store =
  cryptocurrencies :: "crypto_row list"
  price_history :: "price_row list"
  metrics :: "fval option metric_row list"

datatype error = InputError | ConstraintViolation | TypeError

text \<open>
  A stage that writes returns the error it raised, if any, and the database after the call:
  \<^verbatim>\<open>to_sql\<close> inserts in one transaction, committed at its end and rolled back when the
  insert fails.
\<close>

type_synonym outcome = "error option \<times> store"

definition pkey :: "price_row \<Rightarrow> string \<times> date" where
  "pkey r = (crypto_id r, date r)"

definition mkey :: "'v metric_row \<Rightarrow> string \<times> date" where
  "mkey m = (m_crypto_id m, m_date m)"

definition empty_store :: store where
  \<comment> \<open>Modelled from the spec: \<^verbatim>\<open>sql/schema.sql\<close> is not among the sources; the spec gives
      the three tables and a read-only view, created empty.\<close>
  "empty_store = \<lparr>cryptocurrencies = [], price_history = [], metrics = []\<rparr>"

definition to_sql_cryptocurrencies :: "crypto_row list \<Rightarrow> store \<Rightarrow> outcome" where
  \<comment> \<open>Modelled from the spec: \<^verbatim>\<open>assets(asset_id PK, ...)\<close>.\<close>
  "to_sql_cryptocurrencies rows s =
     (if distinct (map c_crypto_id (cryptocurrencies s @ rows))
      then (None, s\<lparr>cryptocurrencies := cryptocurrencies s @ rows\<rparr>)
      else (Some ConstraintViolation, s))"

definition to_sql_price_history :: "price_row list \<Rightarrow> store \<Rightarrow> outcome" where
  \<comment> \<open>Modelled from the spec: \<^verbatim>\<open>UNIQUE(asset_id, date)\<close> on the observations table.\<close>
  "to_sql_price_history rows s =
     (if distinct (map pkey (price_history s @ rows))
      then (None, s\<lparr>price_history := price_history s @ rows\<rparr>)
      else (Some ConstraintViolation, s))"

definition to_sql_metrics :: "fval option metric_row list \<Rightarrow> store \<Rightarrow> outcome" where
  \<comment> \<open>Modelled from the spec: \<^verbatim>\<open>UNIQUE(asset_id, date)\<close> on the metrics table.\<close>
  "to_sql_metrics rows s =
     (if distinct (map mkey (metrics s @ rows))
      then (None, s\<lparr>metrics := metrics s @ rows\<rparr>)
      else (Some ConstraintViolation, s))"

section \<open>Creating the database\<close>

record info_row =
  i_id :: string
  i_symbol :: "string option"
  i_name :: string

record raw_price_row =
  r_crypto_id :: string
  r_date :: string
  r_price :: real
  r_market_cap :: real
  r_volume :: real

text \<open>
  The files the run reads: whether \<^verbatim>\<open>sql/schema.sql\<close> can be opened, and the rows of the two
  CSV files under \<^verbatim>\<open>data/raw\<close> (\<open>None\<close> when \<^verbatim>\<open>pd.read_csv\<close> raises or a selected column is
  missing). The database file is a \<open>store option\<close>, \<open>None\<close> when there is no file or the
  file holds no tables.
\<close>

record files =
  schema_sql :: bool
  crypto_info_csv :: "info_row list option"
  price_history_csv :: "raw_price_row list option"

definition os_remove :: "store option \<Rightarrow> store option" where
  \<comment> \<open>\<^verbatim>\<open>if os.path.exists(DB_PATH): os.remove(DB_PATH)\<close>\<close>
  "os_remove db = (if db \<noteq> None then None else db)"

definition executescript :: "store option \<Rightarrow> store" where
  \<comment> \<open>Modelled from the spec: \<^verbatim>\<open>sql/schema.sql\<close> is not among the sources; on the new
      database it creates the three tables and the view, all empty. (A file that still
      holds tables does not reach this point: it has been removed.)\<close>
  "executescript db = (case db of None \<Rightarrow> empty_store | Some old \<Rightarrow> old)"

definition create_database :: "files \<Rightarrow> store option \<Rightarrow> error + store" where
  \<comment> \<open>removes the old file, connects, reads the schema file and runs it\<close>
  "create_database fs db =
     (let db' = os_remove db
      in if schema_sql fs then Inr (executescript db') else Inl InputError)"

section \<open>Import\<close>

definition crypto_rows :: "info_row list \<Rightarrow> crypto_row list" where
  \<comment> \<open>the columns \<^verbatim>\<open>id\<close>, \<^verbatim>\<open>symbol\<close>, \<^verbatim>\<open>name\<close>, renamed (lines 57 and 58)\<close>
  "crypto_rows df = map (\<lambda>r. \<lparr>c_crypto_id = i_id r, symbol = i_symbol r, name = i_name r\<rparr>) df"

definition import_cryptocurrencies :: "files \<Rightarrow> store \<Rightarrow> outcome" where
  \<comment> \<open>after the insert, line 64 joins the first five symbols with \<^verbatim>\<open>', '.join\<close>, which
      raises \<^verbatim>\<open>TypeError\<close> on a value that is not a string; the insert is committed by then\<close>
  "import_cryptocurrencies fs conn =
     (case crypto_info_csv fs of
        None \<Rightarrow> (Some InputError, conn)
      | Some df \<Rightarrow>
          (case to_sql_cryptocurrencies (crypto_rows df) conn of
             (Some e, s) \<Rightarrow> (Some e, s)
           | (None, s) \<Rightarrow>
               if None \<in> set (take 5 (map i_symbol df)) then (Some TypeError, s)
               else (None, s)))"

definition to_price_row :: "(string \<Rightarrow> date option) \<Rightarrow> raw_price_row \<Rightarrow> price_row option" where
  \<comment> \<open>column renaming and \<^verbatim>\<open>pd.to_datetime(...).dt.date\<close>; \<open>to_date\<close> is \<open>None\<close> on a
      string that \<^verbatim>\<open>pd.to_datetime\<close> rejects\<close>
  "to_price_row to_date r =
     (case to_date (r_date r) of
        None \<Rightarrow> None
      | Some d \<Rightarrow> Some \<lparr>crypto_id = r_crypto_id r, date = d, price_usd = r_price r,
                        market_cap = r_market_cap r, total_volume = r_volume r\<rparr>)"

fun drop_duplicates :: "price_row list \<Rightarrow> price_row list" where
  \<comment> \<open>\<^verbatim>\<open>drop_duplicates(subset=["crypto_id", "date"], keep="last")\<close>: a row stays when no
      later row has its key\<close>
  "drop_duplicates [] = []"
| "drop_duplicates (r # rs) =
     (if pkey r \<in> set (map pkey rs) then drop_duplicates rs else r # drop_duplicates rs)"

definition df_insert :: "(string \<Rightarrow> date option) \<Rightarrow> raw_price_row list \<Rightarrow> price_row list option" where
  \<comment> \<open>the frame handed to \<^verbatim>\<open>to_sql\<close> (lines 80 to 87)\<close>
  "df_insert to_date df =
     (case those (map (to_price_row to_date) df) of
        None \<Rightarrow> None
      | Some rows \<Rightarrow> Some (drop_duplicates rows))"

definition import_price_history :: "(string \<Rightarrow> date option) \<Rightarrow> files \<Rightarrow> store \<Rightarrow> outcome" where
  "import_price_history to_date fs conn =
     (case price_history_csv fs of
        None \<Rightarrow> (Some InputError, conn)
      | Some df \<Rightarrow>
          (case df_insert to_date df of
             None \<Rightarrow> (Some InputError, conn)
           | Some rows \<Rightarrow> to_sql_price_history rows conn))"

section \<open>Metrics\<close>

definition read_sql_query :: "store \<Rightarrow> price_row list" where
  \<comment> \<open>\<^verbatim>\<open>SELECT ... FROM price_history ORDER BY crypto_id, date\<close>\<close>
  "read_sql_query conn = sort_key (\<lambda>r. (crypto_id r, date r)) (price_history conn)"

definition unique :: "'a list \<Rightarrow> 'a list" where
  \<comment> \<open>\<^verbatim>\<open>Series.unique()\<close>: the distinct values in order of first appearance\<close>
  "unique xs = rev (remdups (rev xs))"

definition df_crypto :: "string \<Rightarrow> price_row list \<Rightarrow> price_row list" where
  \<comment> \<open>\<^verbatim>\<open>df[df["crypto_id"] == crypto_id].sort_values("date")\<close>\<close>
  "df_crypto cid df = sort_key date (filter (\<lambda>r. crypto_id r = cid) df)"

definition daily_returns :: "price_row list \<Rightarrow> fval list" where
  "daily_returns rows = map (\<lambda>v. fmul v 100) (pct_change (map price_usd rows))"

definition volume_changes :: "price_row list \<Rightarrow> fval list" where
  "volume_changes rows = map (\<lambda>v. fmul v 100) (pct_change (map total_volume rows))"

definition crypto_metrics :: "string \<Rightarrow> price_row list \<Rightarrow> fval metric_row list" where
  \<comment> \<open>the body of the loop over assets (lines 118 to 143); \<open>rows\<close> is \<open>df_crypto\<close>\<close>
  "crypto_metrics cid rows =
     (let dr = daily_returns rows;
          v7 = rolling_std 7 dr;
          v30 = rolling_std 30 dr;
          vc = volume_changes rows
      in map (\<lambda>i. \<lparr>m_crypto_id = cid, m_date = date (rows ! i), daily_return = dr ! i,
                    volatility_7d = v7 ! i, volatility_30d = v30 ! i,
                    volume_change_24h = vc ! i\<rparr>)
           (filter (\<lambda>i. notna (dr ! i)) [0..<length rows]))"

definition metrics_list :: "price_row list \<Rightarrow> fval metric_row list" where
  "metrics_list df =
     concat (map (\<lambda>cid. crypto_metrics cid (df_crypto cid df)) (unique (map crypto_id df)))"

definition nan_to_none :: "fval \<Rightarrow> fval option" where
  "nan_to_none v = (if notna v then Some v else None)"

definition where_notna :: "fval metric_row \<Rightarrow> fval option metric_row" where
  \<comment> \<open>\<^verbatim>\<open>df_metrics.where(pd.notna(df_metrics), None)\<close>: a NaN is stored as NULL\<close>
  "where_notna m =
     \<lparr>m_crypto_id = m_crypto_id m, m_date = m_date m,
      daily_return = nan_to_none (daily_return m),
      volatility_7d = nan_to_none (volatility_7d m),
      volatility_30d = nan_to_none (volatility_30d m),
      volume_change_24h = nan_to_none (volume_change_24h m)\<rparr>"

definition df_metrics :: "store \<Rightarrow> fval option metric_row list" where
  "df_metrics conn = map where_notna (metrics_list (read_sql_query conn))"

definition calculate_metrics :: "store \<Rightarrow> outcome" where
  "calculate_metrics conn = to_sql_metrics (df_metrics conn) conn"

section \<open>Verification and the whole run\<close>

record report =
  n_cryptocurrencies :: nat
  n_price_history :: nat
  n_metrics :: nat
  min_date :: "date option"
  max_date :: "date option"

definition verify_data :: "store \<Rightarrow> error + report" where
  \<comment> \<open>counts the rows of the three tables and reads the date range; everything is printed,
      nothing is compared\<close>
  "verify_data conn =
     Inr \<lparr>n_cryptocurrencies = length (cryptocurrencies conn),
          n_price_history = length (price_history conn),
          n_metrics = length (metrics conn),
          min_date = (if price_history conn = [] then None
                      else Some (Min (set (map date (price_history conn))))),
          max_date = (if price_history conn = [] then None
                      else Some (Max (set (map date (price_history conn)))))\<rparr>"

definition main :: "(string \<Rightarrow> date option) \<Rightarrow> files \<Rightarrow> store option \<Rightarrow> error option \<times> store option" where
  \<comment> \<open>the stages in order; \<^verbatim>\<open>except Exception as e: print(...); raise\<close> hands the error on.
      The result is the error raised, if any, and the database file the run leaves behind.
      The two sample queries after the verification only read and print.\<close>
  "main to_date fs db =
     (case create_database fs db of
        Inl e \<Rightarrow> (Some e, None)
      | Inr conn \<Rightarrow>
     (case import_cryptocurrencies fs conn of
        (Some e, s1) \<Rightarrow> (Some e, Some s1)
      | (None, s1) \<Rightarrow>
     (case import_price_history to_date fs s1 of
        (Some e, s2) \<Rightarrow> (Some e, Some s2)
      | (None, s2) \<Rightarrow>
     (case calculate_metrics s2 of
        (Some e, s3) \<Rightarrow> (Some e, Some s3)
      | (None, s3) \<Rightarrow>
     (case verify_data s3 of
        Inl e \<Rightarrow> (Some e, Some s3)
      | Inr rep \<Rightarrow> (None, Some s3))))))"

section \<open>Series and stored returns\<close>

text \<open>
  Notions the properties are stated with: the stored observations of one asset by
  ascending date, the return of one row, the metric rows of one asset after the metrics
  stage, and the positions of the last occurrences of the keys of a frame.
\<close>

definition asset_series :: "string \<Rightarrow> store \<Rightarrow> price_row list" where
  \<comment> \<open>the stored observations of asset \<open>a\<close>, by ascending date\<close>
  "asset_series a conn = sort_key date (filter (\<lambda>r. crypto_id r = a) (price_history conn))"

definition pct_return :: "real \<Rightarrow> real \<Rightarrow> fval" where
  \<comment> \<open>the binary64 value of \<open>(cur / prev - 1) * 100\<close>, as lines 122 and 131 compute it\<close>
  "pct_return cur prev = fmul (fsub (fdiv cur prev) 1) 100"

definition asset_metrics :: "string \<Rightarrow> store \<Rightarrow> fval option metric_row list" where
  \<comment> \<open>the metric rows of asset \<open>a\<close> in the store that \<open>calculate_metrics\<close> leaves\<close>
  "asset_metrics a conn = filter (\<lambda>m. m_crypto_id m = a) (metrics (snd (calculate_metrics conn)))"

definition last_occurrences :: "price_row list \<Rightarrow> nat set" where
  \<comment> \<open>the positions of the rows that no later row shares its key with\<close>
  "last_occurrences rs =
     {i. i < length rs \<and> (\<forall>j<length rs. i < j \<longrightarrow> pkey (rs ! j) \<noteq> pkey (rs ! i))}"

section \<open>Example data\<close>

definition iso_dates :: "string \<Rightarrow> date option" where
  \<comment> \<open>three ISO dates and their day numbers\<close>
  "iso_dates = map_of [(''2024-01-01'', 19723), (''2024-01-02'', 19724), (''2024-01-03'', 19725)]"

definition raw :: "string \<Rightarrow> string \<Rightarrow> real \<Rightarrow> raw_price_row" where
  "raw c d p = \<lparr>r_crypto_id = c, r_date = d, r_price = p, r_market_cap = 1000, r_volume = 50\<rparr>"

definition obs :: "string \<Rightarrow> date \<Rightarrow> real \<Rightarrow> price_row" where
  "obs c d p = \<lparr>crypto_id = c, date = d, price_usd = p, market_cap = 1000, total_volume = 50\<rparr>"

definition csv_with_duplicates :: "raw_price_row list" where
  "csv_with_duplicates =
     [raw ''btc'' ''2024-01-01'' 100, raw ''btc'' ''2024-01-02'' 110,
      raw ''btc'' ''2024-01-01'' 105]"

definition csv_unsorted :: "raw_price_row list" where
  "csv_unsorted = [raw ''eth'' ''2024-01-02'' 7, raw ''btc'' ''2024-01-01'' 100]"

definition populated :: store where
  "populated =
     \<lparr>cryptocurrencies = [\<lparr>c_crypto_id = ''btc'', symbol = Some ''BTC'', name = ''Bitcoin''\<rparr>],
      price_history = [obs ''btc'' 19723 100, obs ''btc'' 19724 110],
      metrics = []\<rparr>"

definition single_observation :: store where
  "single_observation =
     \<lparr>cryptocurrencies = [\<lparr>c_crypto_id = ''btc'', symbol = Some ''BTC'', name = ''Bitcoin''\<rparr>],
      price_history = [obs ''btc'' 19723 100],
      metrics = []\<rparr>"

definition files_duplicate_ids :: files where
  "files_duplicate_ids =
     \<lparr>schema_sql = True,
      crypto_info_csv = Some [\<lparr>i_id = ''btc'', i_symbol = Some ''BTC'', i_name = ''Bitcoin''\<rparr>,
                              \<lparr>i_id = ''btc'', i_symbol = Some ''XBT'', i_name = ''Bitcoin''\<rparr>],
      price_history_csv = Some csv_with_duplicates\<rparr>"

definition three_days :: store where
  "three_days =
     \<lparr>cryptocurrencies = [],
      price_history = [obs ''btc'' 19725 99, obs ''eth'' 19723 0, obs ''btc'' 19723 100,
                       obs ''btc'' 19724 110],
      metrics = []\<rparr>"






definition files_missing_prices :: files where
  "files_missing_prices =
     \<lparr>schema_sql = True,
      crypto_info_csv = Some [\<lparr>i_id = ''btc'', i_symbol = Some ''BTC'', i_name = ''Bitcoin''\<rparr>],
      price_history_csv = None\<rparr>"

definition files_bad_date :: files where
  "files_bad_date =
     \<lparr>schema_sql = True,
      crypto_info_csv = Some [\<lparr>i_id = ''btc'', i_symbol = Some ''BTC'', i_name = ''Bitcoin''\<rparr>],
      price_history_csv = Some [raw ''btc'' ''2024-01-01'' 100, raw ''btc'' ''yesterday'' 110]\<rparr>"

definition files_no_symbol :: files where
  "files_no_symbol =
     \<lparr>schema_sql = True,
      crypto_info_csv = Some [\<lparr>i_id = ''btc'', i_symbol = None, i_name = ''Bitcoin''\<rparr>],
      price_history_csv = Some csv_with_duplicates\<rparr>"

definition files_good :: files where
  "files_good =
     \<lparr>schema_sql = True,
      crypto_info_csv = Some [\<lparr>i_id = ''btc'', i_symbol = Some ''BTC'', i_name = ''Bitcoin''\<rparr>],
      price_history_csv = Some csv_with_duplicates\<rparr>"

definition zeros :: store where
  "zeros =
     \<lparr>cryptocurrencies = [],
      price_history =
        [\<lparr>crypto_id = ''btc'', date = 19723, price_usd = 5, market_cap = 1000, total_volume = 0\<rparr>,
         \<lparr>crypto_id = ''btc'', date = 19724, price_usd = 0, market_cap = 1000, total_volume = 0\<rparr>,
         \<lparr>crypto_id = ''btc'', date = 19725, price_usd = 0, market_cap = 1000, total_volume = 7\<rparr>,
         \<lparr>crypto_id = ''btc'', date = 19726, price_usd = 4, market_cap = 1000, total_volume = 7\<rparr>],
      metrics = []\<rparr>"


section \<open>Importing observations\<close>

lemma keys_drop_duplicates: "pkey ` set (drop_duplicates rs) = pkey ` set rs"
  by (induction rs) auto

lemma distinct_drop_duplicates: "distinct (map pkey (drop_duplicates rs))"
proof (induction rs)
  case Nil
  show ?case by simp
next
  case (Cons r rs)
  have "pkey r \<notin> pkey ` set rs \<Longrightarrow> pkey r \<notin> pkey ` set (drop_duplicates rs)"
    by (simp add: keys_drop_duplicates)
  with Cons show ?case by simp
qed

lemma subseq_drop_duplicates: "subseq (drop_duplicates rs) rs"
  by (induction rs) auto

lemma filter_drop_duplicates:
  "filter (\<lambda>r. pkey r = k) (drop_duplicates rs) =
     (if k \<in> pkey ` set rs then [last (filter (\<lambda>r. pkey r = k) rs)] else [])"
proof (induction rs)
  case Nil
  show ?case by simp
next
  case (Cons r rs)
  show ?case
  proof (cases "pkey r \<in> pkey ` set rs")
    case True
    then have "filter (\<lambda>x. pkey x = k) rs \<noteq> []" if "pkey r = k"
      using that by (auto simp: filter_empty_conv)
    with True Cons show ?thesis by auto
  next
    case False
    then have "\<forall>x\<in>set rs. pkey x \<noteq> k" if "pkey r = k"
      using that by blast
    then have "filter (\<lambda>x. pkey x = k) rs = []" if "pkey r = k"
      using that by simp
    with False Cons show ?thesis by auto
  qed
qed

lemma import_price_history_empty:
  assumes "price_history_csv fs = Some df"
    and "those (map (to_price_row to_date) df) = Some rows"
    and "price_history conn = []"
  shows "import_price_history to_date fs conn =
           (None, conn\<lparr>price_history := drop_duplicates rows\<rparr>)"
  using assms
  by (simp add: import_price_history_def df_insert_def to_sql_price_history_def
      distinct_drop_duplicates)

lemma those_csv_with_duplicates:
  "those (map (to_price_row iso_dates) csv_with_duplicates) =
     Some [obs ''btc'' 19723 100, obs ''btc'' 19724 110, obs ''btc'' 19723 105]"
  by (simp add: csv_with_duplicates_def to_price_row_def iso_dates_def raw_def obs_def)

text \<open>
  C3. The observation import into the empty table succeeds for every CSV whose dates parse;
  the stored rows have exactly the keys \<open>(crypto_id, date)\<close> of the input, and for every such
  key exactly one row is stored, the last input row with that key.
\<close>

theorem import_keeps_last_duplicate:
  assumes "price_history_csv fs = Some df"
    and "those (map (to_price_row to_date) df) = Some rows"
    and "price_history conn = []"
  shows "\<exists>s'. import_price_history to_date fs conn = (None, s') \<and>
           pkey ` set (price_history s') = pkey ` set rows \<and>
           (\<forall>k \<in> pkey ` set rows.
              filter (\<lambda>r. pkey r = k) (price_history s') =
                [last (filter (\<lambda>r. pkey r = k) rows)])"
  using import_price_history_empty [OF assms]
  by (simp add: keys_drop_duplicates filter_drop_duplicates)

theorem import_keeps_last_duplicate_witness:
  "price_history_csv files_duplicate_ids = Some csv_with_duplicates \<and>
   those (map (to_price_row iso_dates) csv_with_duplicates) =
     Some [obs ''btc'' 19723 100, obs ''btc'' 19724 110, obs ''btc'' 19723 105] \<and>
   price_history empty_store = [] \<and>
   (\<exists>s'. import_price_history iso_dates files_duplicate_ids empty_store = (None, s') \<and>
      filter (\<lambda>r. pkey r = (''btc'', 19723)) (price_history s') = [obs ''btc'' 19723 105])"
proof -
  have h1: "price_history_csv files_duplicate_ids = Some csv_with_duplicates"
    by (simp add: files_duplicate_ids_def)
  have h3: "price_history empty_store = []"
    by (simp add: empty_store_def)
  from import_keeps_last_duplicate [OF h1 those_csv_with_duplicates h3]
  obtain s' where s': "import_price_history iso_dates files_duplicate_ids empty_store = (None, s')"
    and l: "\<forall>k \<in> pkey ` set [obs ''btc'' 19723 100, obs ''btc'' 19724 110, obs ''btc'' 19723 105].
              filter (\<lambda>r. pkey r = k) (price_history s') =
                [last (filter (\<lambda>r. pkey r = k)
                   [obs ''btc'' 19723 100, obs ''btc'' 19724 110, obs ''btc'' 19723 105])]"
    by blast
  have "filter (\<lambda>r. pkey r = (''btc'', 19723)) (price_history s') = [obs ''btc'' 19723 105]"
    using l by (simp add: pkey_def obs_def)
  with h1 h3 s' those_csv_with_duplicates show ?thesis by blast
qed

text \<open>
  C4. After the observation import into the empty table, no two stored rows share
  \<open>(crypto_id, date)\<close>, whatever the input; the insert is never rejected.
\<close>

theorem import_keys_unique:
  assumes "price_history conn = []"
  shows "fst (import_price_history to_date fs conn) \<noteq> Some ConstraintViolation \<and>
         distinct (map pkey (price_history (snd (import_price_history to_date fs conn))))"
  using assms
  by (simp add: import_price_history_def df_insert_def to_sql_price_history_def
      distinct_drop_duplicates split: option.splits)

theorem import_keys_unique_witness:
  "price_history empty_store = [] \<and>
   import_price_history iso_dates files_duplicate_ids empty_store =
     (None, empty_store\<lparr>price_history := [obs ''btc'' 19724 110, obs ''btc'' 19723 105]\<rparr>) \<and>
   distinct (map pkey
     (price_history (snd (import_price_history iso_dates files_duplicate_ids empty_store))))"
proof -
  have h: "price_history empty_store = []"
    by (simp add: empty_store_def)
  have r: "import_price_history iso_dates files_duplicate_ids empty_store =
     (None, empty_store\<lparr>price_history := [obs ''btc'' 19724 110, obs ''btc'' 19723 105]\<rparr>)"
    by (simp add: import_price_history_def df_insert_def those_csv_with_duplicates
        files_duplicate_ids_def to_sql_price_history_def empty_store_def pkey_def obs_def)
  from import_keys_unique [OF h, of iso_dates files_duplicate_ids] h r show ?thesis by blast
qed

text \<open>
  C5, as stated, fails: the importer has no sort. For the two-row CSV \<open>csv_unsorted\<close> the
  frame handed to the insert is in input order, \<open>eth\<close> before \<open>btc\<close>.
\<close>

theorem import_not_sorted_counterexample:
  "df_insert iso_dates csv_unsorted = Some [obs ''eth'' 19724 7, obs ''btc'' 19723 100] \<and>
   \<not> sorted (map pkey [obs ''eth'' 19724 7, obs ''btc'' 19723 100])"
  by (simp add: df_insert_def csv_unsorted_def to_price_row_def iso_dates_def raw_def obs_def
      pkey_def)

lemma nths_last_occurrences_Cons:
  "nths (r # rs) (last_occurrences (r # rs)) =
     (if pkey r \<in> pkey ` set rs then [] else [r]) @ nths rs (last_occurrences rs)"
proof -
  have z: "0 \<in> last_occurrences (r # rs) \<longleftrightarrow> pkey r \<notin> pkey ` set rs"
  proof
    assume a: "0 \<in> last_occurrences (r # rs)"
    show "pkey r \<notin> pkey ` set rs"
    proof
      assume "pkey r \<in> pkey ` set rs"
      then obtain x where "pkey r = pkey x" and "x \<in> set rs" by (rule imageE)
      then obtain k where "k < length rs" and "rs ! k = x" by (auto simp: in_set_conv_nth)
      with a \<open>pkey r = pkey x\<close> show False
        by (auto simp: last_occurrences_def dest: spec [of _ "Suc k"])
    qed
  next
    assume a: "pkey r \<notin> pkey ` set rs"
    have "pkey ((r # rs) ! j) \<noteq> pkey r" if "j < length (r # rs)" "0 < j" for j
    proof -
      from that obtain k where k: "j = Suc k" "k < length rs" by (cases j) auto
      then have "rs ! k \<in> set rs" by simp
      then have "pkey (rs ! k) \<in> pkey ` set rs" by (rule imageI)
      with a have "pkey (rs ! k) \<noteq> pkey r" by metis
      with k show ?thesis by simp
    qed
    then show "0 \<in> last_occurrences (r # rs)"
      by (simp add: last_occurrences_def)
  qed
  have s: "{j. Suc j \<in> last_occurrences (r # rs)} = last_occurrences rs"
  proof (rule set_eqI)
    fix i
    have "(\<forall>j<Suc (length rs). Suc i < j \<longrightarrow> pkey ((r # rs) ! j) \<noteq> pkey (rs ! i)) \<longleftrightarrow>
          (\<forall>k<length rs. i < k \<longrightarrow> pkey (rs ! k) \<noteq> pkey (rs ! i))"
    proof
      assume a: "\<forall>j<Suc (length rs). Suc i < j \<longrightarrow> pkey ((r # rs) ! j) \<noteq> pkey (rs ! i)"
      show "\<forall>k<length rs. i < k \<longrightarrow> pkey (rs ! k) \<noteq> pkey (rs ! i)"
      proof (intro allI impI)
        fix k assume "k < length rs" "i < k"
        with a [rule_format, of "Suc k"] show "pkey (rs ! k) \<noteq> pkey (rs ! i)" by simp
      qed
    next
      assume a: "\<forall>k<length rs. i < k \<longrightarrow> pkey (rs ! k) \<noteq> pkey (rs ! i)"
      show "\<forall>j<Suc (length rs). Suc i < j \<longrightarrow> pkey ((r # rs) ! j) \<noteq> pkey (rs ! i)"
      proof (intro allI impI)
        fix j assume j: "j < Suc (length rs)" "Suc i < j"
        then obtain k where "j = Suc k" by (cases j) auto
        with j a [rule_format, of k] show "pkey ((r # rs) ! j) \<noteq> pkey (rs ! i)" by simp
      qed
    qed
    then show "i \<in> {j. Suc j \<in> last_occurrences (r # rs)} \<longleftrightarrow> i \<in> last_occurrences rs"
      by (simp add: last_occurrences_def)
  qed
  show ?thesis
    unfolding nths_Cons s using z by simp
qed

lemma drop_duplicates_nths: "drop_duplicates rs = nths rs (last_occurrences rs)"
proof (induction rs)
  case Nil
  show ?case by simp
next
  case (Cons r rs)
  then show ?case
    unfolding nths_last_occurrences_Cons by simp
qed

text \<open>
  C5, amended. The importer does not sort: the frame handed to the insert holds exactly the
  converted CSV rows that are the last occurrence of their key \<open>(crypto_id, date)\<close>, in the
  order they have in the input.
\<close>

theorem import_keeps_input_order:
  assumes "df_insert to_date df = Some rows"
  shows "\<exists>conv. those (map (to_price_row to_date) df) = Some conv \<and>
           rows = nths conv (last_occurrences conv)"
  using assms
  by (auto simp: df_insert_def drop_duplicates_nths split: option.splits)

theorem import_keeps_input_order_witness:
  "df_insert iso_dates csv_with_duplicates = Some [obs ''btc'' 19724 110, obs ''btc'' 19723 105] \<and>
   those (map (to_price_row iso_dates) csv_with_duplicates) =
     Some [obs ''btc'' 19723 100, obs ''btc'' 19724 110, obs ''btc'' 19723 105] \<and>
   [obs ''btc'' 19724 110, obs ''btc'' 19723 105] =
     nths [obs ''btc'' 19723 100, obs ''btc'' 19724 110, obs ''btc'' 19723 105] {1, 2}"
proof -
  have h: "df_insert iso_dates csv_with_duplicates =
      Some [obs ''btc'' 19724 110, obs ''btc'' 19723 105]"
    by (simp add: df_insert_def those_csv_with_duplicates pkey_def obs_def)
  have n: "nths [obs ''btc'' 19723 100, obs ''btc'' 19724 110, obs ''btc'' 19723 105] {1, 2} =
      [obs ''btc'' 19724 110, obs ''btc'' 19723 105]"
    by (simp add: nths_Cons)
  from import_keeps_input_order [OF h] h n show ?thesis
    by (simp add: those_csv_with_duplicates)
qed


section \<open>Database creation, pipeline and report\<close>

lemma insort_key_same_id:
  assumes "crypto_id x = a"
  shows "\<forall>y\<in>set ys. crypto_id y = a \<Longrightarrow>
     insort_key (\<lambda>r. (crypto_id r, date r)) x ys = insort_key date x ys"
  using assms by (induction ys) simp_all

lemma sort_key_same_id:
  "\<forall>y\<in>set ys. crypto_id y = a \<Longrightarrow> sort_key (\<lambda>r. (crypto_id r, date r)) ys = sort_key date ys"
proof (induction ys)
  case Nil
  show ?case by simp
next
  case (Cons y ys)
  then have "\<forall>z\<in>set (sort_key date ys). crypto_id z = a" by simp
  from insort_key_same_id [OF _ this, of y] Cons show ?case by simp
qed

lemma df_crypto_read_sql_query: "df_crypto a (read_sql_query conn) = asset_series a conn"
proof -
  let ?ys = "filter (\<lambda>r. crypto_id r = a) (price_history conn)"
  have "df_crypto a (read_sql_query conn) =
          sort_key date (sort_key (\<lambda>r. (crypto_id r, date r)) ?ys)"
    by (simp add: df_crypto_def read_sql_query_def filter_sort)
  also have "sort_key (\<lambda>r. (crypto_id r, date r)) ?ys = sort_key date ?ys"
    by (rule sort_key_same_id [of _ a]) simp
  also have "sort_key date (sort_key date ?ys) = sort_key date ?ys"
    by (rule sort_key_id_if_sorted) simp
  finally show ?thesis by (simp add: asset_series_def)
qed

lemma crypto_metrics_id: "m \<in> set (crypto_metrics cid rows) \<Longrightarrow> m_crypto_id m = cid"
  by (auto simp: crypto_metrics_def Let_def)

lemma filter_concat_groups:
  assumes "distinct ids" and "\<And>c m. m \<in> set (f c) \<Longrightarrow> g m = c"
  shows "filter (\<lambda>m. g m = a) (concat (map f ids)) = (if a \<in> set ids then f a else [])"
  using assms(1)
proof (induction ids)
  case Nil
  show ?case by simp
next
  case (Cons c ids)
  have "filter (\<lambda>m. g m = a) (f c) = (if c = a then f c else [])"
    using assms(2) [of _ c] by (auto simp: filter_empty_conv filter_id_conv)
  with Cons show ?case by auto
qed

lemma distinct_unique: "distinct (unique xs)"
  by (simp add: unique_def)

lemma set_unique: "set (unique xs) = set xs"
  by (simp add: unique_def)

lemma crypto_metrics_Nil: "crypto_metrics cid [] = []"
  by (simp add: crypto_metrics_def daily_returns_def pct_change_def Let_def)

lemma filter_metrics_list:
  "filter (\<lambda>m. m_crypto_id m = a) (metrics_list df) = crypto_metrics a (df_crypto a df)"
proof -
  have "filter (\<lambda>m. m_crypto_id m = a) (metrics_list df) =
      (if a \<in> set (unique (map crypto_id df)) then crypto_metrics a (df_crypto a df) else [])"
    unfolding metrics_list_def
    by (rule filter_concat_groups) (simp_all add: distinct_unique crypto_metrics_id)
  moreover have "df_crypto a df = []" if "a \<notin> set (map crypto_id df)"
  proof -
    have "filter (\<lambda>r. crypto_id r = a) df = []"
      using that by (auto simp: filter_empty_conv)
    then show ?thesis by (simp add: df_crypto_def)
  qed
  ultimately show ?thesis by (simp add: set_unique crypto_metrics_Nil)
qed

lemma filter_df_metrics:
  "filter (\<lambda>m. m_crypto_id m = a) (df_metrics conn) =
     map where_notna (crypto_metrics a (asset_series a conn))"
proof -
  have "filter (\<lambda>m. m_crypto_id m = a) (map where_notna ms) =
        map where_notna (filter (\<lambda>m. m_crypto_id m = a) ms)" for ms
    by (induction ms) (simp_all add: where_notna_def)
  then show ?thesis
    by (simp add: df_metrics_def filter_metrics_list df_crypto_read_sql_query)
qed

lemma distinct_by_groups:
  assumes "\<And>a. distinct (map g (filter (\<lambda>x. f x = a) xs))"
  shows "distinct (map (\<lambda>x. (f x, g x)) xs)"
  using assms
proof (induction xs)
  case Nil
  show ?case by simp
next
  case (Cons x xs)
  have d: "distinct (map g (filter (\<lambda>y. f y = a) xs))" for a
    using Cons.prems [of a] by (simp split: if_splits)
  have "(f x, g x) \<notin> set (map (\<lambda>x. (f x, g x)) xs)"
  proof
    assume "(f x, g x) \<in> set (map (\<lambda>x. (f x, g x)) xs)"
    then obtain y where y: "y \<in> set xs" "f y = f x" "g y = g x" by auto
    then have "y \<in> set (filter (\<lambda>y. f y = f x) xs)" by simp
    then have "g y \<in> g ` set (filter (\<lambda>y. f y = f x) xs)" by (rule imageI)
    with y have "g x \<in> set (map g (filter (\<lambda>y. f y = f x) xs))" by simp
    with Cons.prems [of "f x"] show False by simp
  qed
  with Cons.IH [OF d] show ?case by simp
qed

lemma distinct_dates_asset_series:
  assumes "distinct (map pkey (price_history conn))"
  shows "distinct (map date (asset_series a conn))"
proof -
  let ?ys = "filter (\<lambda>r. crypto_id r = a) (price_history conn)"
  have "distinct (map pkey ?ys)"
    using assms by (rule distinct_map_filter)
  moreover have "map pkey (filter (\<lambda>r. crypto_id r = a) xs) =
      map (Pair a) (map date (filter (\<lambda>r. crypto_id r = a) xs))" for xs
    by (induction xs) (simp_all add: pkey_def)
  ultimately have "distinct (map (Pair a) (map date ?ys))"
    by simp
  then have d: "distinct (map date ?ys)"
    using distinct_map [of "Pair a" "map date ?ys"] by blast
  have "distinct (map date (sort_key date xs)) = distinct (map date xs)" for xs :: "price_row list"
    by (induction xs) (simp_all add: distinct_insort_key)
  with d show ?thesis
    by (simp add: asset_series_def)
qed

lemma crypto_metrics_dates:
  "map m_date (crypto_metrics cid rows) =
     map (\<lambda>i. date (rows ! i)) (filter (\<lambda>i. notna (daily_returns rows ! i)) [0..<length rows])"
  by (simp add: crypto_metrics_def Let_def comp_def)

lemma distinct_dates_crypto_metrics:
  assumes "distinct (map date rows)"
  shows "distinct (map m_date (crypto_metrics cid rows))"
proof -
  have "i = j" if "i < length rows" "j < length rows" "date (rows ! i) = date (rows ! j)" for i j
    using nth_eq_iff_index_eq [OF assms, of i j] that by simp
  then have "inj_on (\<lambda>i. date (rows ! i)) {0..<length rows}"
    by (intro inj_onI) simp
  then have "inj_on (\<lambda>i. date (rows ! i))
      (set (filter (\<lambda>i. notna (daily_returns rows ! i)) [0..<length rows]))"
    by (rule inj_on_subset) auto
  then show ?thesis
    by (simp add: crypto_metrics_dates distinct_map)
qed

lemma distinct_df_metrics:
  assumes "distinct (map pkey (price_history conn))"
  shows "distinct (map mkey (df_metrics conn))"
proof -
  have "distinct (map m_date (filter (\<lambda>m. m_crypto_id m = a) (df_metrics conn)))" for a
  proof -
    have "m_date \<circ> where_notna = m_date"
      by (rule ext) (simp add: where_notna_def)
    then show ?thesis
      using distinct_dates_crypto_metrics [OF distinct_dates_asset_series [OF assms], of a a]
      by (simp add: filter_df_metrics)
  qed
  then have "distinct (map (\<lambda>m. (m_crypto_id m, m_date m)) (df_metrics conn))"
    by (rule distinct_by_groups)
  then show ?thesis
    by (simp add: mkey_def [abs_def])
qed

lemma calculate_metrics_fresh:
  assumes "distinct (map pkey (price_history conn))" and "metrics conn = []"
  shows "calculate_metrics conn = (None, conn\<lparr>metrics := df_metrics conn\<rparr>)"
  using assms distinct_df_metrics [OF assms(1)]
  by (simp add: calculate_metrics_def to_sql_metrics_def)

text \<open>
  C6. When the schema file can be read, \<open>create_database\<close> returns the empty store whatever
  the database file held before, a populated store included: no row of the prior state
  is left, the result does not depend on the prior state, and running it again on its own
  result gives the same store.
\<close>

theorem create_database_resets:
  assumes "schema_sql fs"
  shows "create_database fs db = Inr empty_store \<and>
         cryptocurrencies empty_store = [] \<and> price_history empty_store = [] \<and>
         metrics empty_store = [] \<and>
         create_database fs (Some empty_store) = Inr empty_store"
  using assms
  by (simp add: create_database_def os_remove_def executescript_def empty_store_def)

theorem create_database_resets_witness:
  "schema_sql files_duplicate_ids \<and> price_history populated \<noteq> [] \<and>
   create_database files_duplicate_ids (Some populated) = Inr empty_store \<and>
   create_database files_duplicate_ids None = Inr empty_store"
proof -
  have h: "schema_sql files_duplicate_ids"
    by (simp add: files_duplicate_ids_def)
  have p: "price_history populated \<noteq> []"
    by (simp add: populated_def)
  from create_database_resets [OF h, of "Some populated"] create_database_resets [OF h, of None]
    h p show ?thesis by blast
qed


lemma import_cryptocurrencies_empty:
  assumes "crypto_info_csv fs = Some info"
  shows "import_cryptocurrencies fs empty_store =
     (if \<not> distinct (map i_id info) then (Some ConstraintViolation, empty_store)
      else if None \<in> set (take 5 (map i_symbol info))
      then (Some TypeError, empty_store\<lparr>cryptocurrencies := crypto_rows info\<rparr>)
      else (None, empty_store\<lparr>cryptocurrencies := crypto_rows info\<rparr>))"
proof -
  have "map c_crypto_id (crypto_rows info) = map i_id info"
    by (simp add: crypto_rows_def comp_def)
  then show ?thesis
    using assms
    by (simp add: import_cryptocurrencies_def to_sql_cryptocurrencies_def empty_store_def)
qed

text \<open>
  C7. No stage catches an error and the run re-raises it: a schema file or CSV file that
  cannot be read, a date that does not parse, an asset id that occurs twice and a symbol
  that is not a string each end the run with that error and with the database as it was
  when the error was raised, no later stage having run; only when none of these occurs
  does the run end without an error, with all three tables written. An insert that the
  store rejects in the observation import or in the metrics stage is returned as the
  stage's error, the database unchanged.
\<close>

theorem main_propagates_errors:
  "(\<not> schema_sql fs \<longrightarrow> main to_date fs db = (Some InputError, None)) \<and>
   (schema_sql fs \<and> crypto_info_csv fs = None \<longrightarrow>
      main to_date fs db = (Some InputError, Some empty_store)) \<and>
   (schema_sql fs \<and> crypto_info_csv fs = Some info \<and> \<not> distinct (map i_id info) \<longrightarrow>
      main to_date fs db = (Some ConstraintViolation, Some empty_store)) \<and>
   (schema_sql fs \<and> crypto_info_csv fs = Some info \<and> distinct (map i_id info) \<and>
    None \<in> set (take 5 (map i_symbol info)) \<longrightarrow>
      main to_date fs db =
        (Some TypeError, Some (empty_store\<lparr>cryptocurrencies := crypto_rows info\<rparr>))) \<and>
   (schema_sql fs \<and> crypto_info_csv fs = Some info \<and> distinct (map i_id info) \<and>
    None \<notin> set (take 5 (map i_symbol info)) \<and> price_history_csv fs = None \<longrightarrow>
      main to_date fs db =
        (Some InputError, Some (empty_store\<lparr>cryptocurrencies := crypto_rows info\<rparr>))) \<and>
   (schema_sql fs \<and> crypto_info_csv fs = Some info \<and> distinct (map i_id info) \<and>
    None \<notin> set (take 5 (map i_symbol info)) \<and> price_history_csv fs = Some df \<and>
    those (map (to_price_row to_date) df) = None \<longrightarrow>
      main to_date fs db =
        (Some InputError, Some (empty_store\<lparr>cryptocurrencies := crypto_rows info\<rparr>))) \<and>
   (schema_sql fs \<and> crypto_info_csv fs = Some info \<and> distinct (map i_id info) \<and>
    None \<notin> set (take 5 (map i_symbol info)) \<and> price_history_csv fs = Some df \<and>
    those (map (to_price_row to_date) df) = Some conv \<longrightarrow>
      main to_date fs db =
        (None, Some \<lparr>cryptocurrencies = crypto_rows info,
                     price_history = drop_duplicates conv,
                     metrics = df_metrics \<lparr>cryptocurrencies = crypto_rows info,
                                            price_history = drop_duplicates conv,
                                            metrics = []\<rparr>\<rparr>)) \<and>
   (price_history_csv fs = Some df \<and> those (map (to_price_row to_date) df) = Some conv \<and>
    \<not> distinct (map pkey (price_history conn @ drop_duplicates conv)) \<longrightarrow>
      import_price_history to_date fs conn = (Some ConstraintViolation, conn)) \<and>
   (\<not> distinct (map mkey (metrics conn @ df_metrics conn)) \<longrightarrow>
      calculate_metrics conn = (Some ConstraintViolation, conn))"
proof -
  have c: "create_database fs db = Inr empty_store" if "schema_sql fs"
    using that by (simp add: create_database_def os_remove_def executescript_def)
  have p: "import_price_history to_date fs (empty_store\<lparr>cryptocurrencies := crypto_rows info\<rparr>) =
      (None, \<lparr>cryptocurrencies = crypto_rows info, price_history = drop_duplicates conv,
              metrics = []\<rparr>)"
    if "price_history_csv fs = Some df" "those (map (to_price_row to_date) df) = Some conv"
    using import_price_history_empty [OF that, of "empty_store\<lparr>cryptocurrencies := crypto_rows info\<rparr>"]
    by (simp add: empty_store_def)
  have m: "calculate_metrics \<lparr>cryptocurrencies = crypto_rows info,
        price_history = drop_duplicates conv, metrics = []\<rparr> =
      (None, \<lparr>cryptocurrencies = crypto_rows info, price_history = drop_duplicates conv,
              metrics = df_metrics \<lparr>cryptocurrencies = crypto_rows info,
                                     price_history = drop_duplicates conv, metrics = []\<rparr>\<rparr>)"
    by (subst calculate_metrics_fresh) (simp_all add: distinct_drop_duplicates)
  show ?thesis
    apply (intro conjI impI)
            apply (simp add: main_def create_database_def)
           apply (simp add: main_def c import_cryptocurrencies_def)
          apply (simp add: main_def c import_cryptocurrencies_empty)
         apply (simp add: main_def c import_cryptocurrencies_empty)
        apply (simp add: main_def c import_cryptocurrencies_empty import_price_history_def)
       apply (simp add: main_def c import_cryptocurrencies_empty import_price_history_def
        df_insert_def)
      apply (simp add: main_def c import_cryptocurrencies_empty p m verify_data_def)
     apply (simp add: import_price_history_def df_insert_def to_sql_price_history_def)
    apply (simp add: calculate_metrics_def to_sql_metrics_def)
    done
qed

theorem main_propagates_errors_witness:
  "main iso_dates files_missing_prices (Some populated) =
     (Some InputError,
      Some (empty_store\<lparr>cryptocurrencies :=
        [\<lparr>c_crypto_id = ''btc'', symbol = Some ''BTC'', name = ''Bitcoin''\<rparr>]\<rparr>)) \<and>
   main iso_dates files_bad_date (Some populated) =
     (Some InputError,
      Some (empty_store\<lparr>cryptocurrencies :=
        [\<lparr>c_crypto_id = ''btc'', symbol = Some ''BTC'', name = ''Bitcoin''\<rparr>]\<rparr>)) \<and>
   main iso_dates files_duplicate_ids (Some populated) =
     (Some ConstraintViolation, Some empty_store) \<and>
   main iso_dates files_no_symbol (Some populated) =
     (Some TypeError,
      Some (empty_store\<lparr>cryptocurrencies :=
        [\<lparr>c_crypto_id = ''btc'', symbol = None, name = ''Bitcoin''\<rparr>]\<rparr>)) \<and>
   fst (main iso_dates files_good (Some populated)) = None \<and>
   import_price_history iso_dates files_good populated = (Some ConstraintViolation, populated)"
proof -
  let ?btc = "\<lparr>i_id = ''btc'', i_symbol = Some ''BTC'', i_name = ''Bitcoin''\<rparr>"
  have a: "main iso_dates files_missing_prices (Some populated) =
     (Some InputError,
      Some (empty_store\<lparr>cryptocurrencies :=
        [\<lparr>c_crypto_id = ''btc'', symbol = Some ''BTC'', name = ''Bitcoin''\<rparr>]\<rparr>))"
    using main_propagates_errors [where fs = files_missing_prices and to_date = iso_dates
        and db = "Some populated" and info = "[?btc]",
        THEN conjunct2, THEN conjunct2, THEN conjunct2, THEN conjunct2, THEN conjunct1]
    by (simp add: files_missing_prices_def crypto_rows_def)
  have b: "main iso_dates files_bad_date (Some populated) =
     (Some InputError,
      Some (empty_store\<lparr>cryptocurrencies :=
        [\<lparr>c_crypto_id = ''btc'', symbol = Some ''BTC'', name = ''Bitcoin''\<rparr>]\<rparr>))"
    using main_propagates_errors [where fs = files_bad_date and to_date = iso_dates
        and db = "Some populated" and info = "[?btc]"
        and df = "[raw ''btc'' ''2024-01-01'' 100, raw ''btc'' ''yesterday'' 110]",
        THEN conjunct2, THEN conjunct2, THEN conjunct2, THEN conjunct2, THEN conjunct2,
        THEN conjunct1]
    by (simp add: files_bad_date_def crypto_rows_def to_price_row_def iso_dates_def raw_def)
  have c: "main iso_dates files_duplicate_ids (Some populated) =
     (Some ConstraintViolation, Some empty_store)"
    using main_propagates_errors [where fs = files_duplicate_ids and to_date = iso_dates
        and db = "Some populated"
        and info = "[?btc, \<lparr>i_id = ''btc'', i_symbol = Some ''XBT'', i_name = ''Bitcoin''\<rparr>]",
        THEN conjunct2, THEN conjunct2, THEN conjunct1]
    by (simp add: files_duplicate_ids_def)
  have d: "main iso_dates files_no_symbol (Some populated) =
     (Some TypeError,
      Some (empty_store\<lparr>cryptocurrencies :=
        [\<lparr>c_crypto_id = ''btc'', symbol = None, name = ''Bitcoin''\<rparr>]\<rparr>))"
    using main_propagates_errors [where fs = files_no_symbol and to_date = iso_dates
        and db = "Some populated"
        and info = "[\<lparr>i_id = ''btc'', i_symbol = None, i_name = ''Bitcoin''\<rparr>]",
        THEN conjunct2, THEN conjunct2, THEN conjunct2, THEN conjunct1]
    by (simp add: files_no_symbol_def crypto_rows_def)
  have e: "fst (main iso_dates files_good (Some populated)) = None"
    using main_propagates_errors [where fs = files_good and to_date = iso_dates
        and db = "Some populated" and info = "[?btc]" and df = csv_with_duplicates
        and conv = "[obs ''btc'' 19723 100, obs ''btc'' 19724 110, obs ''btc'' 19723 105]",
        THEN conjunct2, THEN conjunct2, THEN conjunct2, THEN conjunct2, THEN conjunct2,
        THEN conjunct2, THEN conjunct1]
    by (simp add: files_good_def those_csv_with_duplicates)
  have f: "import_price_history iso_dates files_good populated = (Some ConstraintViolation, populated)"
    using main_propagates_errors [where fs = files_good and to_date = iso_dates
        and df = csv_with_duplicates and conn = populated
        and conv = "[obs ''btc'' 19723 100, obs ''btc'' 19724 110, obs ''btc'' 19723 105]",
        THEN conjunct2, THEN conjunct2, THEN conjunct2, THEN conjunct2, THEN conjunct2,
        THEN conjunct2, THEN conjunct2, THEN conjunct1]
    by (simp add: files_good_def those_csv_with_duplicates populated_def pkey_def obs_def)
  from a b c d e f show ?thesis by blast
qed

text \<open>
  C8, as stated, fails: for a store with one asset and one observation the metrics stage
  stores no row, and the verification of the resulting store, whose metrics table is empty,
  returns its report with the count 0 and no failure.
\<close>

theorem verify_data_empty_counterexample:
  "calculate_metrics single_observation = (None, single_observation) \<and>
   metrics single_observation = [] \<and>
   verify_data single_observation =
     Inr \<lparr>n_cryptocurrencies = 1, n_price_history = 1, n_metrics = 0,
          min_date = Some 19723, max_date = Some 19723\<rparr>"
  by (simp add: single_observation_def verify_data_def calculate_metrics_def to_sql_metrics_def
      df_metrics_def metrics_list_def read_sql_query_def unique_def df_crypto_def
      crypto_metrics_def daily_returns_def pct_change_def notna_def Let_def obs_def)

text \<open>
  C8, amended. The verification reports the row count of each of the three tables and the
  date range of the observations, the smallest and the largest stored date, none where
  there is no observation; it compares nothing and returns no failure for any store.
\<close>

theorem verify_data_reports:
  "\<exists>rep. verify_data conn = Inr rep \<and>
     n_cryptocurrencies rep = length (cryptocurrencies conn) \<and>
     n_price_history rep = length (price_history conn) \<and>
     n_metrics rep = length (metrics conn) \<and>
     (price_history conn = [] \<longrightarrow> min_date rep = None \<and> max_date rep = None) \<and>
     (price_history conn \<noteq> [] \<longrightarrow>
        (\<exists>lo hi. min_date rep = Some lo \<and> max_date rep = Some hi \<and>
           lo \<in> date ` set (price_history conn) \<and> hi \<in> date ` set (price_history conn) \<and>
           (\<forall>r\<in>set (price_history conn). lo \<le> date r \<and> date r \<le> hi)))"
proof (cases "price_history conn = []")
  case True
  then show ?thesis by (simp add: verify_data_def)
next
  case False
  then have ne: "date ` set (price_history conn) \<noteq> {}" by simp
  have fin: "finite (date ` set (price_history conn))" by simp
  from Min_in [OF fin ne] Max_in [OF fin ne] Min_le [OF fin] Max_ge [OF fin] False
  show ?thesis by (simp add: verify_data_def)
qed

theorem verify_data_reports_witness:
  "price_history populated \<noteq> [] \<and>
   verify_data populated =
     Inr \<lparr>n_cryptocurrencies = 1, n_price_history = 2, n_metrics = 0,
          min_date = Some 19723, max_date = Some 19724\<rparr> \<and>
   price_history empty_store = [] \<and>
   verify_data empty_store =
     Inr \<lparr>n_cryptocurrencies = 0, n_price_history = 0, n_metrics = 0,
          min_date = None, max_date = None\<rparr>"
proof -
  have a: "verify_data populated =
     Inr \<lparr>n_cryptocurrencies = 1, n_price_history = 2, n_metrics = 0,
          min_date = Some 19723, max_date = Some 19724\<rparr>"
    by (simp add: verify_data_def populated_def obs_def)
  have b: "verify_data empty_store =
     Inr \<lparr>n_cryptocurrencies = 0, n_price_history = 0, n_metrics = 0,
          min_date = None, max_date = None\<rparr>"
    by (simp add: verify_data_def empty_store_def)
  have c: "price_history populated \<noteq> []" by (simp add: populated_def)
  have d: "price_history empty_store = []" by (simp add: empty_store_def)
  from verify_data_reports [of populated] verify_data_reports [of empty_store] a b c d
  show ?thesis by blast
qed

text \<open>
  C10. The metrics stage leaves the tables \<open>cryptocurrencies\<close> and \<open>price_history\<close> as they
  were and only appends to \<open>metrics\<close>: the old metric rows are a prefix of the new ones.
\<close>

theorem calculate_metrics_frame:
  "cryptocurrencies (snd (calculate_metrics conn)) = cryptocurrencies conn \<and>
   price_history (snd (calculate_metrics conn)) = price_history conn \<and>
   prefix (metrics conn) (metrics (snd (calculate_metrics conn)))"
  by (simp add: calculate_metrics_def to_sql_metrics_def)


section \<open>Daily returns\<close>

lemma round64_not_NaN: "round64 x \<noteq> NaN"
  by (auto simp: round64_def finf_def Let_def)

lemma fdiv_NaN_iff: "fdiv x y = NaN \<longleftrightarrow> x = 0 \<and> y = 0"
  by (simp add: fdiv_def finf_def round64_not_NaN)

lemma fsub_NaN_iff: "fsub v c = NaN \<longleftrightarrow> v = NaN"
  by (cases v) (simp_all add: round64_not_NaN)

lemma fmul_100_NaN_iff: "fmul v 100 = NaN \<longleftrightarrow> v = NaN"
  by (cases v) (simp_all add: round64_not_NaN finf_def)

lemma pct_return_NaN_iff: "pct_return x y = NaN \<longleftrightarrow> x = 0 \<and> y = 0"
  by (simp add: pct_return_def fmul_100_NaN_iff fsub_NaN_iff fdiv_NaN_iff)



lemma daily_returns_nth:
  "i < length rows \<Longrightarrow>
     daily_returns rows ! i =
       (if i = 0 then NaN else pct_return (price_usd (rows ! i)) (price_usd (rows ! (i - 1))))"
  by (simp add: daily_returns_def pct_change_def pct_return_def)


lemma returned_rows:
  "filter (\<lambda>i. notna (daily_returns rows ! i)) [0..<length rows] =
   filter (\<lambda>i. price_usd (rows ! (i - 1)) \<noteq> 0 \<or> price_usd (rows ! i) \<noteq> 0) [1..<length rows]"
proof (cases "length rows")
  case 0
  then show ?thesis by simp
next
  case (Suc n)
  have "notna (daily_returns rows ! i) \<longleftrightarrow>
        price_usd (rows ! (i - 1)) \<noteq> 0 \<or> price_usd (rows ! i) \<noteq> 0"
    if "i \<in> set [1..<length rows]" for i
    using that by (auto simp: daily_returns_nth notna_def pct_return_NaN_iff)
  then have "filter (\<lambda>i. notna (daily_returns rows ! i)) [1..<length rows] =
      filter (\<lambda>i. price_usd (rows ! (i - 1)) \<noteq> 0 \<or> price_usd (rows ! i) \<noteq> 0) [1..<length rows]"
    by (intro filter_cong refl)
  moreover have "\<not> notna (daily_returns rows ! 0)"
    using Suc by (simp add: daily_returns_nth notna_def)
  moreover have "[0..<length rows] = 0 # [1..<length rows]"
    using Suc by (simp add: upt_conv_Cons)
  ultimately show ?thesis by simp
qed

lemma crypto_metrics_returns:
  "map (\<lambda>m. (m_date m, daily_return m)) (map where_notna (crypto_metrics cid rows)) =
     map (\<lambda>i. (date (rows ! i),
                Some (pct_return (price_usd (rows ! i)) (price_usd (rows ! (i - 1))))))
       (filter (\<lambda>i. price_usd (rows ! (i - 1)) \<noteq> 0 \<or> price_usd (rows ! i) \<noteq> 0)
          [1..<length rows])"
proof -
  have "crypto_metrics cid rows =
     map (\<lambda>i. \<lparr>m_crypto_id = cid, m_date = date (rows ! i),
                daily_return = daily_returns rows ! i,
                volatility_7d = rolling_std 7 (daily_returns rows) ! i,
                volatility_30d = rolling_std 30 (daily_returns rows) ! i,
                volume_change_24h = volume_changes rows ! i\<rparr>)
       (filter (\<lambda>i. price_usd (rows ! (i - 1)) \<noteq> 0 \<or> price_usd (rows ! i) \<noteq> 0)
          [1..<length rows])"
    by (simp only: crypto_metrics_def Let_def returned_rows)
  then show ?thesis
    by (auto simp: where_notna_def nan_to_none_def notna_def daily_returns_nth
        pct_return_NaN_iff)
qed

lemma asset_series_props:
  "sorted (map date (asset_series a conn)) \<and>
   set (asset_series a conn) = {r \<in> set (price_history conn). crypto_id r = a} \<and>
   length (asset_series a conn) = length (filter (\<lambda>r. crypto_id r = a) (price_history conn))"
  by (simp add: asset_series_def)

lemma asset_metrics_fresh:
  assumes "distinct (map pkey (price_history conn))" and "metrics conn = []"
  shows "asset_metrics a conn = map where_notna (crypto_metrics a (asset_series a conn))"
  by (simp add: asset_metrics_def calculate_metrics_fresh [OF assms] filter_df_metrics)

text \<open>
  C1, amended. For a store with unique observation keys and an empty metrics table, the
  metrics computation succeeds, and for every asset \<open>a\<close> with its observations \<open>rows\<close> by
  ascending date: one metric row is stored for every observation \<open>i\<close> but the first, except
  where the price and the previous price are both zero, in date order; its \<open>daily_return\<close> is
  the binary64 value of \<open>(price[i] / price[i-1] - 1) * 100\<close>, each operation rounded to
  nearest, infinite where the previous price is zero or a step leaves the binary64 range.
\<close>

theorem daily_return_rows:
  assumes "distinct (map pkey (price_history conn))" and "metrics conn = []"
  shows "fst (calculate_metrics conn) = None \<and>
     (let rows = asset_series a conn in
        sorted (map date rows) \<and> distinct (map date rows) \<and>
        set rows = {r \<in> set (price_history conn). crypto_id r = a} \<and>
        map (\<lambda>m. (m_date m, daily_return m)) (asset_metrics a conn) =
        map (\<lambda>i. (date (rows ! i),
                   Some (pct_return (price_usd (rows ! i)) (price_usd (rows ! (i - 1))))))
          (filter (\<lambda>i. price_usd (rows ! (i - 1)) \<noteq> 0 \<or> price_usd (rows ! i) \<noteq> 0)
             [1..<length rows]))"
  using asset_series_props [of a conn] distinct_dates_asset_series [OF assms(1), of a]
    crypto_metrics_returns [of a "asset_series a conn"]
  by (simp add: calculate_metrics_fresh [OF assms] asset_metrics_fresh [OF assms] Let_def)


section \<open>Evaluating binary64 returns\<close>

lemmas round64_eval =
  round64_def expo_def pow2_def round_half_even_def compute_floorlog finf_def Let_def

lemmas metrics_eval =
  asset_metrics_def calculate_metrics_def to_sql_metrics_def df_metrics_def metrics_list_def
  read_sql_query_def unique_def df_crypto_def crypto_metrics_def daily_returns_def
  volume_changes_def pct_change_def rolling_std_def finite_vals_def notna_def
  where_notna_def nan_to_none_def mkey_def obs_def Let_def pct_return_def [symmetric]


lemma asset_series_zeros: "asset_series ''btc'' zeros = price_history zeros"
  by (simp add: asset_series_def zeros_def)

lemma pct_return_110_100: "pct_return 110 100 = Fin (5629499534213125 / 562949953421312)"
  by (simp add: pct_return_def fdiv_def round64_eval)

lemma pct_return_99_110: "pct_return 99 110 = Fin (- (5629499534213119 / 562949953421312))"
  by (simp add: pct_return_def fdiv_def round64_eval)

lemma pct_return_0_5: "pct_return 0 5 = Fin (- 100)"
  by (simp add: pct_return_def fdiv_def round64_eval)

lemma pct_return_4_0: "pct_return 4 0 = PInf"
  by (simp add: pct_return_def fdiv_def round64_eval)

lemma pct_return_50_50: "pct_return 50 50 = Fin 0"
  by (simp add: pct_return_def fdiv_def round64_eval)




text \<open>
  C1, as stated, fails for the exact percentage: with the prices 100, 110, 99 the stored
  returns are the binary64 values \<open>10.000000000000009\<close> and \<open>-9.999999999999998\<close>, not 10
  and -10.
\<close>

theorem daily_return_rounding_counterexample:
  "map daily_return (asset_metrics ''btc'' three_days) =
     [Some (Fin (5629499534213125 / 562949953421312)),
      Some (Fin (- (5629499534213119 / 562949953421312)))] \<and>
   5629499534213125 / 562949953421312 \<noteq> (10 :: real) \<and>
   - (5629499534213119 / 562949953421312) \<noteq> (- 10 :: real)"
  by (simp add: three_days_def metrics_eval pct_return_110_100 pct_return_99_110
      pct_return_50_50)

theorem daily_return_rows_witness:
  "distinct (map pkey (price_history zeros)) \<and> metrics zeros = [] \<and>
   map price_usd (asset_series ''btc'' zeros) = [5, 0, 0, 4] \<and>
   fst (calculate_metrics zeros) = None \<and>
   map (\<lambda>m. (m_date m, daily_return m)) (asset_metrics ''btc'' zeros) =
     [(19724, Some (Fin (- 100))), (19726, Some PInf)]"
proof -
  have h1: "distinct (map pkey (price_history zeros))"
    by (simp add: zeros_def pkey_def)
  have h2: "metrics zeros = []"
    by (simp add: zeros_def)
  have h3: "map price_usd (asset_series ''btc'' zeros) = [5, 0, 0, 4]"
    by (simp add: asset_series_def zeros_def)
  have "[1..<4] = [1, 2, 3::nat]"
    by (simp add: upt_rec)
  with daily_return_rows [OF h1 h2, of "''btc''", unfolded Let_def asset_series_zeros]
    h1 h2 h3 show ?thesis
    by (simp add: zeros_def pct_return_0_5 pct_return_4_0)
qed


section \<open>Zero prices and volumes\<close>













section \<open>Rolling windows\<close>














section \<open>Volatility\<close>







section \<open>Volatility on concrete series\<close>








end
